theory Spec2Isabelle
  imports Main "HOL-Library.Word" "HOL-Library.List_Lexorder"
begin

section \<open>JavaScript values\<close>

text \<open>
  A JavaScript string is a sequence of UTF-16 code units; \<open>length\<close>, \<open>substring\<close> and
  \<open>encodeURIComponent\<close> all work on code units. String literals of the source that are
  not ASCII are written as their code units; ASCII literals go through \<open>js\<close>.
\<close>

type_synonym js_string = "16 word list"

definition js :: "string \<Rightarrow> js_string" where
  "js s = map (\<lambda>c. of_nat (of_char c)) s"

text \<open>What a parsed JSON body (or a missing property) can hold. Numbers are integers here.\<close>

datatype jsval =
    JUndefined
  | JNull
  | JBool bool
  | JNum int
  | JStr js_string
  | JArr "jsval list"
  | JObj "(js_string \<times> jsval) list"

text \<open>\<open>!x\<close> is \<open>\<not> truthy x\<close>: undefined, null, false, 0 and the empty string are falsy.\<close>

fun truthy :: "jsval \<Rightarrow> bool" where
  "truthy JUndefined = False"
| "truthy JNull = False"
| "truthy (JBool b) = b"
| "truthy (JNum n) = (n \<noteq> 0)"
| "truthy (JStr s) = (s \<noteq> [])"
| "truthy (JArr vs) = True"
| "truthy (JObj kvs) = True"

text \<open>The operator \<open>a || b\<close>.\<close>

definition or_else :: "jsval \<Rightarrow> jsval \<Rightarrow> jsval" where
  "or_else a b = (if truthy a then a else b)"

text \<open>
  \<open>Array.prototype.includes\<close> compares with SameValueZero: primitives by value, arrays and
  objects by reference. A value parsed from the request body and a value parsed from a
  store reply are never the same reference.
\<close>

fun same_value_zero :: "jsval \<Rightarrow> jsval \<Rightarrow> bool" where
  "same_value_zero (JArr vs) y = False"
| "same_value_zero (JObj kvs) y = False"
| "same_value_zero x y = (x = y)"

definition js_includes :: "jsval list \<Rightarrow> jsval \<Rightarrow> bool" where
  "js_includes vs x = list_ex (same_value_zero x) vs"

fun is_primitive :: "jsval \<Rightarrow> bool" where
  "is_primitive (JArr vs) = False"
| "is_primitive (JObj kvs) = False"
| "is_primitive x = True"


section \<open>The hosted store\<close>

text \<open>
  Both programs talk to the hosted store through the Supabase client. The store is not
  part of the repository; it is modelled as tables of rows, and every call either takes
  effect on the tables or is answered with an error object, which the caller sees as
  \<open>{ data: null, error }\<close>. A filter \<open>.eq(column, value)\<close> selects the rows whose column
  holds that value. Columns the store fills by itself (for instance \<open>created_at\<close>) are
  left out, and so are the tables no modelled handler touches.
\<close>

record store_error =
  code :: js_string
  message :: js_string

record article_data =
  title :: js_string
  content :: js_string
  excerpt :: js_string
  category :: js_string
  source_url :: js_string
  image_url :: "js_string option"
  is_trending :: bool
  is_fire :: bool
  reaction_count :: int
  comment_count :: "int option"
  view_count :: int
  published_at :: js_string

record article = article_data +
  row_id :: jsval

record comment =
  article_id :: jsval
  user_name :: jsval
  user_avatar :: jsval
  comment_text :: jsval

record user_preference =
  user_id :: jsval
  favorite_categories :: jsval
  viewed_articles :: jsval
  last_visit :: "js_string option"

record db =
  articles :: "article list"
  comments :: "comment list"
  user_preferences :: "user_preference list"

text \<open>\<open>.single()\<close>: the row when exactly one row matches, otherwise no data.\<close>

fun single :: "'a list \<Rightarrow> 'a option" where
  "single [x] = Some x"
| "single xs = None"

text \<open>\<open>.order(column, { ascending: false })\<close>.\<close>

definition order_desc :: "('a \<Rightarrow> 'k::linorder) \<Rightarrow> 'a list \<Rightarrow> 'a list" where
  "order_desc key rows = rev (sort_key key rows)"


section \<open>The API server (src/server.js)\<close>

text \<open>
  A handler answers with a status and a JSON envelope, \<open>{ success: true, data }\<close> or
  \<open>{ success: false, error }\<close>, and leaves the store in a new state. The argument
  \<open>fault\<close> gives the store's answer to the handler's calls, numbered in the order the
  handler makes them: \<open>fault i = Some e\<close> when call \<open>i\<close> is answered with the error \<open>e\<close>.
\<close>

datatype 'a reply = Success 'a | Failure js_string

record 'a response =
  status :: nat
  body :: "'a reply"

definition data_of :: "'a list response \<Rightarrow> 'a list" where
  "data_of r = (case body r of Success xs \<Rightarrow> xs | Failure m \<Rightarrow> [])"

subsection \<open>POST /api/comments\<close>

record comment_body =
  b_article_id :: jsval
  b_user_name :: jsval
  b_user_avatar :: jsval
  b_text :: jsval

text \<open>\<open>(article?.comment_count || 0)\<close>\<close>

definition count_or_zero :: "article option \<Rightarrow> int" where
  "count_or_zero article =
     (case article of
        None \<Rightarrow> 0
      | Some a \<Rightarrow> (case comment_count a of None \<Rightarrow> 0 | Some c \<Rightarrow> c))"

definition new_comment :: "comment_body \<Rightarrow> comment" where
  "new_comment b =
     \<lparr> article_id = b_article_id b,
       user_name = or_else (b_user_name b) (JStr [0x533F, 0x540D]),
       user_avatar = or_else (b_user_avatar b) (JStr [0xD83D, 0xDE0A]),
       comment_text = b_text b \<rparr>"

definition set_comment_count :: "jsval \<Rightarrow> int \<Rightarrow> article list \<Rightarrow> article list" where
  "set_comment_count i n rows =
     map (\<lambda>a. if row_id a = i then a\<lparr>comment_count := Some n\<rparr> else a) rows"

definition post_comments ::
  "(nat \<Rightarrow> store_error option) \<Rightarrow> comment_body \<Rightarrow> db \<Rightarrow> comment response \<times> db" where
  "post_comments fault b d =
     (if \<not> truthy (b_article_id b) \<or> \<not> truthy (b_text b) then
        (\<lparr>status = 400, body = Failure (js ''article_id and text are required'')\<rparr>, d)
      else
        (case fault 0 of
           Some e \<Rightarrow> (\<lparr>status = 500, body = Failure (message e)\<rparr>, d)
         | None \<Rightarrow>
             let d1 = d\<lparr>comments := comments d @ [new_comment b]\<rparr>;
                 article =
                   (case fault 1 of
                      Some e \<Rightarrow> None
                    | None \<Rightarrow> single (filter (\<lambda>a. row_id a = b_article_id b) (articles d1)));
                 d2 =
                   (case fault 2 of
                      Some e \<Rightarrow> d1
                    | None \<Rightarrow>
                        d1\<lparr>articles :=
                             set_comment_count (b_article_id b) (count_or_zero article + 1)
                               (articles d1)\<rparr>)
             in (\<lparr>status = 200, body = Success (new_comment b)\<rparr>, d2)))"


subsection \<open>GET /api/articles\<close>

text \<open>
  Express hands query parameters over as strings, so \<open>offset + limit - 1\<close> adds numbers
  only when both parameters are absent (the defaults 0 and 20); otherwise \<open>+\<close> joins the
  two as text and \<open>- 1\<close> converts the joined text to a number. The model covers
  parameters written as decimal digits.
\<close>

datatype digit = D0 | D1 | D2 | D3 | D4 | D5 | D6 | D7 | D8 | D9

fun digit_value :: "digit \<Rightarrow> int" where
  "digit_value D0 = 0"
| "digit_value D1 = 1"
| "digit_value D2 = 2"
| "digit_value D3 = 3"
| "digit_value D4 = 4"
| "digit_value D5 = 5"
| "digit_value D6 = 6"
| "digit_value D7 = 7"
| "digit_value D8 = 8"
| "digit_value D9 = 9"

text \<open>ToNumber of a digit string; the empty string converts to 0.\<close>

definition to_number :: "digit list \<Rightarrow> int" where
  "to_number ds = foldl (\<lambda>n x. 10 * n + digit_value x) 0 ds"

record articles_query =
  q_category :: "js_string option"
  q_limit :: "digit list option"
  q_offset :: "digit list option"

definition range_from :: "articles_query \<Rightarrow> int" where
  "range_from q = (case q_offset q of None \<Rightarrow> 0 | Some ds \<Rightarrow> to_number ds)"

definition range_to :: "articles_query \<Rightarrow> int" where
  "range_to q =
     (case (q_offset q, q_limit q) of
        (None, None) \<Rightarrow> 0 + 20 - 1
      | (None, Some l) \<Rightarrow> to_number (D0 # l) - 1
      | (Some off, None) \<Rightarrow> to_number (off @ [D2, D0]) - 1
      | (Some off, Some l) \<Rightarrow> to_number (off @ l) - 1)"

text \<open>
  \<open>.range(from, to)\<close> asks the store for \<open>to - from + 1\<close> rows after skipping \<open>from\<close>;
  the store filters, orders and then cuts the range.
\<close>

definition range_rows :: "int \<Rightarrow> int \<Rightarrow> 'a list \<Rightarrow> 'a list" where
  "range_rows from to rows = take (nat (to - from + 1)) (drop (nat from) rows)"

definition get_articles ::
  "store_error option \<Rightarrow> articles_query \<Rightarrow> db \<Rightarrow> article list response" where
  "get_articles fault q d =
     (let matching =
            (case q_category q of
               None \<Rightarrow> articles d
             | Some c \<Rightarrow>
                 if c \<noteq> [] \<and> c \<noteq> js ''all''
                 then filter (\<lambda>a. category a = c) (articles d)
                 else articles d);
          data = range_rows (range_from q) (range_to q) (order_desc published_at matching)
      in case fault of
           Some e \<Rightarrow> \<lparr>status = 500, body = Failure (message e)\<rparr>
         | None \<Rightarrow> \<lparr>status = 200, body = Success data\<rparr>)"

subsection \<open>POST /api/recommendations/articles\<close>

text \<open>
  \<open>categories\<close> and \<open>viewed_articles\<close> are arrays when present; an absent
  \<open>viewed_articles\<close> defaults to the empty array.
\<close>

record recommend_body =
  r_user_id :: jsval
  r_categories :: "js_string list option"
  r_viewed_articles :: "jsval list option"

definition recommend_articles ::
  "store_error option \<Rightarrow> recommend_body \<Rightarrow> db \<Rightarrow> article list response" where
  "recommend_articles fault b d =
     (let viewed = (case r_viewed_articles b of None \<Rightarrow> [] | Some vs \<Rightarrow> vs);
          matching =
            (case r_categories b of
               None \<Rightarrow> articles d
             | Some cs \<Rightarrow>
                 if length cs > 0
                 then filter (\<lambda>a. category a \<in> set cs) (articles d)
                 else articles d);
          data = take 10 (order_desc published_at matching)
      in case fault of
           Some e \<Rightarrow> \<lparr>status = 500, body = Failure (message e)\<rparr>
         | None \<Rightarrow>
             \<lparr>status = 200,
              body = Success (filter (\<lambda>a. \<not> js_includes viewed (row_id a)) data)\<rparr>)"

subsection \<open>POST /api/user-preferences\<close>

record preferences_body =
  p_user_id :: jsval
  p_favorite_categories :: jsval
  p_viewed_articles :: jsval

text \<open>The row written by the update branch, given the row read before.\<close>

definition updated_preference ::
  "preferences_body \<Rightarrow> js_string \<Rightarrow> user_preference \<Rightarrow> user_preference \<Rightarrow> user_preference" where
  "updated_preference b now existing p =
     p\<lparr> favorite_categories := or_else (p_favorite_categories b) (favorite_categories existing),
        viewed_articles := or_else (p_viewed_articles b) (viewed_articles existing),
        last_visit := Some now \<rparr>"

text \<open>The row written by the insert branch: it carries no \<open>last_visit\<close>.\<close>

definition new_preference :: "preferences_body \<Rightarrow> user_preference" where
  "new_preference b =
     \<lparr> user_id = p_user_id b,
       favorite_categories = or_else (p_favorite_categories b) (JArr []),
       viewed_articles = or_else (p_viewed_articles b) (JArr []),
       last_visit = None \<rparr>"

text \<open>\<open>data[0]\<close> of the rows a write returns.\<close>

fun first_row :: "'a list \<Rightarrow> 'a option" where
  "first_row [] = None"
| "first_row (x # xs) = Some x"

text \<open>\<open>now\<close> is \<open>new Date().toISOString()\<close> at the time of the request.\<close>

definition post_user_preferences ::
  "(nat \<Rightarrow> store_error option) \<Rightarrow> js_string \<Rightarrow> preferences_body \<Rightarrow> db
     \<Rightarrow> user_preference option response \<times> db" where
  "post_user_preferences fault now b d =
     (if \<not> truthy (p_user_id b) then
        (\<lparr>status = 400, body = Failure (js ''user_id is required'')\<rparr>, d)
      else
        let existing =
              (case fault 0 of
                 Some e \<Rightarrow> None
               | None \<Rightarrow> single (filter (\<lambda>p. user_id p = p_user_id b) (user_preferences d)))
        in case existing of
             Some ex \<Rightarrow>
               (case fault 1 of
                  Some e \<Rightarrow> (\<lparr>status = 500, body = Failure (message e)\<rparr>, d)
                | None \<Rightarrow>
                    let rows =
                          map (\<lambda>p. if user_id p = p_user_id b
                                    then updated_preference b now ex p else p)
                            (user_preferences d);
                        data = filter (\<lambda>p. user_id p = p_user_id b) rows
                    in (\<lparr>status = 200, body = Success (first_row data)\<rparr>,
                        d\<lparr>user_preferences := rows\<rparr>))
           | None \<Rightarrow>
               (case fault 1 of
                  Some e \<Rightarrow> (\<lparr>status = 500, body = Failure (message e)\<rparr>, d)
                | None \<Rightarrow>
                    (\<lparr>status = 200, body = Success (first_row [new_preference b])\<rparr>,
                     d\<lparr>user_preferences := user_preferences d @ [new_preference b]\<rparr>)))"


section \<open>The ingestion job (src/scripts/fetch-youtube-trending.js)\<close>

subsection \<open>Exceptions and text built by the script\<close>

datatype js_error =
    URIError js_string
  | TypeError js_string
  | SyntaxError js_string
  | Error js_string

text \<open>A number in a template literal: its decimal digits.\<close>

fun dec :: "nat \<Rightarrow> js_string" where
  "dec n = (if n < 10 then [of_nat (48 + n)] else dec (n div 10) @ [of_nat (48 + n mod 10)])"

text \<open>
  \<open>encodeURIComponent\<close>: the letters, the digits and \<open>- _ . ! ~ * ' ( )\<close> stay; every
  other code point is written as the percent-escaped bytes of its UTF-8 form. A surrogate
  code unit that is not part of a lead/trail pair makes the function throw a URIError.
\<close>

definition unreserved :: "16 word \<Rightarrow> bool" where
  "unreserved c =
     ((0x41 \<le> c \<and> c \<le> 0x5A) \<or> (0x61 \<le> c \<and> c \<le> 0x7A) \<or> (0x30 \<le> c \<and> c \<le> 0x39)
      \<or> c \<in> set [0x2D, 0x5F, 0x2E, 0x21, 0x7E, 0x2A, 0x27, 0x28, 0x29])"

definition is_lead :: "16 word \<Rightarrow> bool" where
  "is_lead c = (0xD800 \<le> c \<and> c \<le> 0xDBFF)"

definition is_trail :: "16 word \<Rightarrow> bool" where
  "is_trail c = (0xDC00 \<le> c \<and> c \<le> 0xDFFF)"

definition code_point :: "16 word \<Rightarrow> 16 word \<Rightarrow> nat" where
  "code_point lead trail = 0x10000 + (unat lead - 0xD800) * 0x400 + (unat trail - 0xDC00)"

definition utf8 :: "nat \<Rightarrow> nat list" where
  "utf8 cp =
     (if cp < 0x80 then [cp]
      else if cp < 0x800 then [0xC0 + cp div 0x40, 0x80 + cp mod 0x40]
      else if cp < 0x10000 then
        [0xE0 + cp div 0x1000, 0x80 + cp div 0x40 mod 0x40, 0x80 + cp mod 0x40]
      else
        [0xF0 + cp div 0x40000, 0x80 + cp div 0x1000 mod 0x40,
         0x80 + cp div 0x40 mod 0x40, 0x80 + cp mod 0x40])"

definition hex_digit :: "nat \<Rightarrow> 16 word" where
  "hex_digit n = (if n < 10 then of_nat (48 + n) else of_nat (55 + n))"

definition percent :: "nat \<Rightarrow> js_string" where
  "percent byte = [0x25, hex_digit (byte div 16), hex_digit (byte mod 16)]"

definition escape :: "nat \<Rightarrow> js_string" where
  "escape cp = concat (map percent (utf8 cp))"

definition then_append :: "js_string \<Rightarrow> js_error + js_string \<Rightarrow> js_error + js_string" where
  "then_append s r = (case r of Inl e \<Rightarrow> Inl e | Inr t \<Rightarrow> Inr (s @ t))"

fun encodeURIComponent :: "js_string \<Rightarrow> js_error + js_string" where
  "encodeURIComponent [] = Inr []"
| "encodeURIComponent (c # cs) =
     (if unreserved c then then_append [c] (encodeURIComponent cs)
      else if \<not> is_lead c \<and> \<not> is_trail c then
        then_append (escape (unat c)) (encodeURIComponent cs)
      else if is_trail c then Inl (URIError (js ''URI malformed''))
      else
        (case cs of
           [] \<Rightarrow> Inl (URIError (js ''URI malformed''))
         | d # ds \<Rightarrow>
             if is_trail d then then_append (escape (code_point c d)) (encodeURIComponent ds)
             else Inl (URIError (js ''URI malformed''))))"

text \<open>A string is well formed when every surrogate code unit is part of a pair.\<close>

fun isWellFormed :: "js_string \<Rightarrow> bool" where
  "isWellFormed [] = True"
| "isWellFormed [c] = (\<not> is_lead c \<and> \<not> is_trail c)"
| "isWellFormed (c # d # ds) =
     (if is_lead c then is_trail d \<and> isWellFormed ds
      else \<not> is_trail c \<and> isWellFormed (d # ds))"


subsection \<open>The video platform, the store and the console as seen by the job\<close>

text \<open>
  What \<open>fetch(url)\<close> followed by \<open>response.json()\<close> can come to: the request is
  rejected (a transport error), the body is not JSON, the body is \<open>null\<close>, or the body is
  an object, which may carry \<open>error\<close> (given by its message) and \<open>items\<close>.
\<close>

record 'a api_data =
  api_error :: "js_string option"
  items :: "'a list option"

datatype 'a fetch_outcome =
    FetchRejected js_error
  | JsonRejected js_error
  | JsonNull
  | JsonObject "'a api_data"

text \<open>
  A search item, with \<open>id.videoId\<close>, \<open>snippet.title\<close>, \<open>snippet.description\<close> and the
  urls of \<open>snippet.thumbnails.high\<close> and \<open>snippet.thumbnails.default\<close> where present.
\<close>

record video =
  videoId :: js_string
  snippet_title :: js_string
  snippet_description :: js_string
  thumbnails_high_url :: "js_string option"
  thumbnails_default_url :: "js_string option"

text \<open>A comment thread, with the two fields of \<open>snippet.topLevelComment.snippet\<close> in use.\<close>

record comment_thread =
  textDisplay :: js_string
  authorDisplayName :: js_string

text \<open>One constructor for each \<open>console.log\<close> and \<open>console.error\<close> of the script.\<close>

datatype log_entry =
    Starting
  | Searching js_string
  | Found nat
  | Processing js_string
  | Comments nat
  | ArticleCreated js_string
  | Completed nat
  | CannotGetComments js_string js_string
  | ErrorSearchingVideos js_error
  | ErrorFetchingComments js_error
  | ErrorSavingArticle store_error
  | FatalError js_error

text \<open>
  The surroundings of a run. Every answer is indexed by the number of interactions the
  job has had so far (\<open>tick\<close>), so that the same question can be answered differently at
  different times. \<open>store_insert\<close> answers an insert with an error or with the id the
  store gives the new row; \<open>random\<close> is the source of \<open>Math.random\<close>; \<open>now\<close> is
  \<open>new Date().toISOString()\<close>.
\<close>

record env =
  YOUTUBE_API_KEY :: "js_string option"
  fetch_search :: "nat \<Rightarrow> js_string \<Rightarrow> video fetch_outcome"
  fetch_comment_threads :: "nat \<Rightarrow> js_string \<Rightarrow> comment_thread fetch_outcome"
  store_insert :: "nat \<Rightarrow> store_error + jsval"
  random :: "nat \<Rightarrow> nat"
  now :: "nat \<Rightarrow> js_string"

record world =
  store :: "article list"
  console :: "log_entry list"
  tick :: nat

definition log :: "log_entry \<Rightarrow> world \<Rightarrow> world" where
  "log e w = w\<lparr>console := console w @ [e]\<rparr>"

definition key_text :: "env \<Rightarrow> js_string" where
  "key_text e = (case YOUTUBE_API_KEY e of None \<Rightarrow> js ''undefined'' | Some k \<Rightarrow> k)"

subsection \<open>searchTrendingVideos\<close>

definition search_url :: "env \<Rightarrow> js_string \<Rightarrow> nat \<Rightarrow> js_string" where
  "search_url e q maxResults =
     js ''https://www.googleapis.com/youtube/v3/search?part=snippet&q='' @ q
     @ js ''&type=video&order=viewCount&maxResults='' @ dec maxResults
     @ js ''&key='' @ key_text e"

text \<open>The body of the \<open>try\<close> block, as the list it returns or the exception it throws.\<close>

definition search_try :: "video fetch_outcome \<Rightarrow> js_error + video list" where
  "search_try outcome =
     (case outcome of
        FetchRejected x \<Rightarrow> Inl x
      | JsonRejected x \<Rightarrow> Inl x
      | JsonNull \<Rightarrow> Inl (TypeError (js ''Cannot read properties of null''))
      | JsonObject data \<Rightarrow>
          (case api_error data of
             Some m \<Rightarrow> Inl (Error (js ''YouTube API Error: '' @ m))
           | None \<Rightarrow> Inr (case items data of None \<Rightarrow> [] | Some vs \<Rightarrow> vs)))"

text \<open>
  The url is built before the \<open>try\<close> block, so an exception of \<open>encodeURIComponent\<close>
  leaves the function; an exception inside the block is logged and answered with \<open>[]\<close>.
\<close>

definition searchTrendingVideos ::
  "env \<Rightarrow> js_string \<Rightarrow> nat \<Rightarrow> world \<Rightarrow> (js_error + video list) \<times> world" where
  "searchTrendingVideos e keyword maxResults w =
     (case encodeURIComponent keyword of
        Inl x \<Rightarrow> (Inl x, w)
      | Inr q \<Rightarrow>
          let w1 = w\<lparr>tick := tick w + 1\<rparr>
          in (case search_try (fetch_search e (tick w) (search_url e q maxResults)) of
               Inl x \<Rightarrow> (Inr [], log (ErrorSearchingVideos x) w1)
             | Inr vs \<Rightarrow> (Inr vs, w1)))"

subsection \<open>getVideoComments\<close>

definition comments_url :: "env \<Rightarrow> js_string \<Rightarrow> nat \<Rightarrow> js_string" where
  "comments_url e v maxResults =
     js ''https://www.googleapis.com/youtube/v3/commentThreads?part=snippet&videoId='' @ v
     @ js ''&maxResults='' @ dec maxResults
     @ js ''&order=relevance&key='' @ key_text e"

text \<open>
  The body of the \<open>try\<close> block: an error reported by the platform is logged there and
  answered with \<open>[]\<close>, without an exception.
\<close>

definition comments_try ::
  "js_string \<Rightarrow> comment_thread fetch_outcome \<Rightarrow> js_error + log_entry list \<times> comment_thread list"
  where
  "comments_try v outcome =
     (case outcome of
        FetchRejected x \<Rightarrow> Inl x
      | JsonRejected x \<Rightarrow> Inl x
      | JsonNull \<Rightarrow> Inl (TypeError (js ''Cannot read properties of null''))
      | JsonObject data \<Rightarrow>
          (case api_error data of
             Some m \<Rightarrow> Inr ([CannotGetComments v m], [])
           | None \<Rightarrow> Inr ([], case items data of None \<Rightarrow> [] | Some cs \<Rightarrow> cs)))"

definition getVideoComments ::
  "env \<Rightarrow> js_string \<Rightarrow> nat \<Rightarrow> world \<Rightarrow> (js_error + comment_thread list) \<times> world" where
  "getVideoComments e v maxResults w =
     (let w1 = w\<lparr>tick := tick w + 1\<rparr>
      in case comments_try v (fetch_comment_threads e (tick w) (comments_url e v maxResults)) of
           Inl x \<Rightarrow> (Inr [], log (ErrorFetchingComments x) w1)
         | Inr (entries, cs) \<Rightarrow> (Inr cs, w1\<lparr>console := console w1 @ entries\<rparr>))"


subsection \<open>createArticleFromVideo\<close>

text \<open>One rendered comment: \<open>**author**: text\<close> and an empty line.\<close>

definition render_comment :: "comment_thread \<Rightarrow> js_string" where
  "render_comment c =
     js ''**'' @ authorDisplayName c @ js ''**: '' @ textDisplay c @ [0x0A, 0x0A]"

definition commentText :: "comment_thread list \<Rightarrow> js_string" where
  "commentText cs =
     (if length cs > 0 then
        [0x0A, 0x0A, 0x23, 0x23, 0x20, 0x8996, 0x8074, 0x8005, 0x306E, 0x53CD, 0x5FDC, 0x0A, 0x0A]
        @ concat (map render_comment (take 10 cs))
      else
        [0x0A, 0x0A, 0x8996, 0x8074, 0x8005, 0x306E, 0x30B3, 0x30E1, 0x30F3, 0x30C8, 0x306F,
         0x307E, 0x3060, 0x3042, 0x308A, 0x307E, 0x305B, 0x3093, 0x3002])"

definition watch_url :: "video \<Rightarrow> js_string" where
  "watch_url v = js ''https://www.youtube.com/watch?v='' @ videoId v"

definition article_title :: "video \<Rightarrow> js_string" where
  "article_title v = [0x3010, 0x8A71, 0x984C, 0x3011] @ snippet_title v"

definition article_content :: "video \<Rightarrow> comment_thread list \<Rightarrow> js_string" where
  "article_content v cs =
     [0x59, 0x6F, 0x75, 0x54, 0x75, 0x62, 0x65, 0x3067, 0x8A71, 0x984C, 0x306E, 0x52D5, 0x753B,
      0x300C]
     @ snippet_title v
     @ [0x300D, 0x304C, 0x6CE8, 0x76EE, 0x3092, 0x96C6, 0x3081, 0x3066, 0x3044, 0x307E, 0x3059,
        0x3002, 0x0A, 0x0A]
     @ take 200 (snippet_description v) @ js ''...'' @ [0x0A]
     @ commentText cs
     @ [0x0A, 0x0A, 0x52D5, 0x753B, 0x30EA, 0x30F3, 0x30AF, 0x3A, 0x20] @ watch_url v"

definition article_excerpt :: "video \<Rightarrow> js_string" where
  "article_excerpt v =
     (if take 150 (snippet_description v) \<noteq> [] then take 150 (snippet_description v)
      else [0x8A71, 0x984C, 0x306E, 0x52D5, 0x753B, 0x3092, 0x30C1, 0x30A7, 0x30C3, 0x30AF, 0x21])"

text \<open>\<open>snippet.thumbnails.high?.url || snippet.thumbnails.default?.url\<close>\<close>

definition article_image :: "video \<Rightarrow> js_string option" where
  "article_image v =
     (case thumbnails_high_url v of
        None \<Rightarrow> thumbnails_default_url v
      | Some u \<Rightarrow> if u \<noteq> [] then Some u else thumbnails_default_url v)"

text \<open>
  The record \<open>articleData\<close>. The two calls of \<open>Math.random\<close> and the call of \<open>new Date\<close>
  are the interactions \<open>t\<close>, \<open>t + 1\<close> and \<open>t + 2\<close>.
\<close>

definition articleData ::
  "env \<Rightarrow> nat \<Rightarrow> video \<Rightarrow> comment_thread list \<Rightarrow> js_string \<Rightarrow> article_data" where
  "articleData e t v cs cat =
     \<lparr> title = article_title v,
       content = article_content v cs,
       excerpt = article_excerpt v,
       category = cat,
       source_url = watch_url v,
       image_url = article_image v,
       is_trending = True,
       is_fire = (length cs > 50),
       reaction_count = int (random e t mod 1000) + 500,
       comment_count = Some (int (length cs)),
       view_count = int (random e (t + 1) mod 10000) + 1000,
       published_at = now e (t + 2) \<rparr>"

text \<open>The row the store keeps for an insert it accepts: the data and the id it gave.\<close>

definition stored :: "jsval \<Rightarrow> article_data \<Rightarrow> article" where
  "stored i data = article_data.extend data (article.fields i)"

definition createArticleFromVideo ::
  "env \<Rightarrow> video \<Rightarrow> comment_thread list \<Rightarrow> js_string \<Rightarrow> world \<Rightarrow> article option \<times> world" where
  "createArticleFromVideo e v cs cat w =
     (let data = articleData e (tick w) v cs cat;
          w1 = w\<lparr>tick := tick w + 4\<rparr>
      in (case store_insert e (tick w + 3) of
            Inl err \<Rightarrow> (None, log (ErrorSavingArticle err) w1)
          | Inr i \<Rightarrow>
              (Some (stored i data),
               log (ArticleCreated (article_title v)) (w1\<lparr>store := store w1 @ [stored i data]\<rparr>))))"

subsection \<open>main\<close>

text \<open>
  The loops of \<open>main\<close>, with the running count \<open>totalArticles\<close>. An exception of an
  awaited call ends the loops. The pause of one second between videos is not modelled.
\<close>

fun process_videos ::
  "env \<Rightarrow> js_string \<Rightarrow> video list \<Rightarrow> nat \<Rightarrow> world \<Rightarrow> (js_error + nat) \<times> world" where
  "process_videos e cat [] totalArticles w = (Inr totalArticles, w)"
| "process_videos e cat (v # vs) totalArticles w =
     (case getVideoComments e (videoId v) 20 (log (Processing (snippet_title v)) w) of
        (Inl x, w1) \<Rightarrow> (Inl x, w1)
      | (Inr cs, w1) \<Rightarrow>
          (case createArticleFromVideo e v cs cat (log (Comments (length cs)) w1) of
             (article, w2) \<Rightarrow>
               process_videos e cat vs
                 (if article \<noteq> None then totalArticles + 1 else totalArticles) w2))"

fun process_keywords ::
  "env \<Rightarrow> (js_string \<times> js_string) list \<Rightarrow> nat \<Rightarrow> world \<Rightarrow> (js_error + nat) \<times> world" where
  "process_keywords e [] totalArticles w = (Inr totalArticles, w)"
| "process_keywords e ((keyword, cat) # ks) totalArticles w =
     (case searchTrendingVideos e keyword 3 (log (Searching keyword) w) of
        (Inl x, w1) \<Rightarrow> (Inl x, w1)
      | (Inr vs, w1) \<Rightarrow>
          (case process_videos e cat vs totalArticles (log (Found (length vs)) w1) of
             (Inl x, w2) \<Rightarrow> (Inl x, w2)
           | (Inr totalArticles', w2) \<Rightarrow> process_keywords e ks totalArticles' w2))"

definition keyword_list :: "(js_string \<times> js_string) list" where
  "keyword_list =
     [ ([0x30A2, 0x30CB, 0x30E1, 0x20, 0x8A71, 0x984C], js ''anime''),
       ([0x30B2, 0x30FC, 0x30E0, 0x20, 0x5B9F, 0x6CC1], js ''game''),
       ([0x30DC, 0x30AB, 0x30ED, 0x20, 0x65B0, 0x66F2], js ''music'') ]"

text \<open>
  \<open>main().catch(...)\<close>: the result is the exit code the script sets (\<open>Some 1\<close> after a
  fatal error, \<open>None\<close> when \<open>main\<close> completes) and the world it leaves.
\<close>

definition main :: "env \<Rightarrow> world \<Rightarrow> nat option \<times> world" where
  "main e w =
     (case process_keywords e keyword_list 0 (log Starting w) of
        (Inl x, w1) \<Rightarrow> (Some 1, log (FatalError x) w1)
      | (Inr totalArticles, w1) \<Rightarrow> (None, log (Completed totalArticles) w1))"


subsection \<open>Reading a platform answer\<close>

text \<open>The items an answer carries, and whether an answer is an error answer.\<close>

definition items_of :: "'a fetch_outcome \<Rightarrow> 'a list" where
  "items_of outcome =
     (case outcome of
        JsonObject data \<Rightarrow> (case items data of None \<Rightarrow> [] | Some xs \<Rightarrow> xs)
      | _ \<Rightarrow> [])"

fun failed :: "'a fetch_outcome \<Rightarrow> bool" where
  "failed (FetchRejected x) = True"
| "failed (JsonRejected x) = True"
| "failed JsonNull = True"
| "failed (JsonObject data) = (api_error data \<noteq> None)"


section \<open>Sample data\<close>

definition sample_article :: "js_string \<Rightarrow> js_string \<Rightarrow> int option \<Rightarrow> article" where
  "sample_article i cat n =
     stored (JStr i)
       \<lparr> title = js ''title'', content = js ''content'', excerpt = js ''excerpt'',
         category = cat, source_url = js ''https://www.youtube.com/watch?v=x'',
         image_url = None, is_trending = True, is_fire = False, reaction_count = 500,
         comment_count = n, view_count = 1000,
         published_at = js ''2024-01-01T00:00:00.000Z'' \<rparr>"

definition sample_db :: db where
  "sample_db =
     \<lparr> articles =
         [sample_article (js ''a1'') (js ''anime'') (Some 5),
          sample_article (js ''a2'') (js ''game'') None],
       comments = [],
       user_preferences = [] \<rparr>"

definition no_fault :: "nat \<Rightarrow> store_error option" where
  "no_fault i = None"

definition hi_body :: comment_body where
  "hi_body =
     \<lparr> b_article_id = JStr (js ''a1''), b_user_name = JUndefined,
       b_user_avatar = JUndefined, b_text = JStr (js ''hi'') \<rparr>"

definition all_query :: articles_query where
  "all_query = \<lparr> q_category = Some (js ''all''), q_limit = None, q_offset = None \<rparr>"

definition empty_query :: articles_query where
  "empty_query = \<lparr> q_category = Some [], q_limit = None, q_offset = None \<rparr>"

definition anime_query :: articles_query where
  "anime_query = \<lparr> q_category = Some (js ''anime''), q_limit = None, q_offset = None \<rparr>"

definition viewed_body :: recommend_body where
  "viewed_body =
     \<lparr> r_user_id = JStr (js ''u1''), r_categories = None,
       r_viewed_articles = Some [JStr (js ''a1'')] \<rparr>"

definition first_preferences :: preferences_body where
  "first_preferences =
     \<lparr> p_user_id = JStr (js ''u1''),
       p_favorite_categories = JArr [JStr (js ''anime'')],
       p_viewed_articles = JUndefined \<rparr>"

definition second_preferences :: preferences_body where
  "second_preferences =
     \<lparr> p_user_id = JStr (js ''u1''),
       p_favorite_categories = JUndefined,
       p_viewed_articles = JArr [JStr (js ''a1'')] \<rparr>"

definition sample_video :: video where
  "sample_video =
     \<lparr> videoId = js ''v1'', snippet_title = js ''Title'', snippet_description = js ''About'',
       thumbnails_high_url = Some (js ''https://i.ytimg.com/vi/v1/hq.jpg''),
       thumbnails_default_url = None \<rparr>"

definition sample_thread :: comment_thread where
  "sample_thread = \<lparr> textDisplay = js ''nice'', authorDisplayName = js ''bob'' \<rparr>"

text \<open>A platform that cannot be reached, and one that answers every request.\<close>

definition offline_env :: env where
  "offline_env =
     \<lparr> YOUTUBE_API_KEY = Some (js ''key''),
       fetch_search = (\<lambda>t url. FetchRejected (TypeError (js ''fetch failed''))),
       fetch_comment_threads = (\<lambda>t url. FetchRejected (TypeError (js ''fetch failed''))),
       store_insert = (\<lambda>t. Inr (JNum (int t))),
       random = (\<lambda>t. t),
       now = (\<lambda>t. js ''2024-01-01T00:00:00.000Z'') \<rparr>"

definition online_env :: env where
  "online_env =
     \<lparr> YOUTUBE_API_KEY = Some (js ''key''),
       fetch_search =
         (\<lambda>t url. JsonObject \<lparr> api_error = None, items = Some [sample_video] \<rparr>),
       fetch_comment_threads =
         (\<lambda>t url. JsonObject \<lparr> api_error = None, items = Some [sample_thread, sample_thread] \<rparr>),
       store_insert = (\<lambda>t. Inr (JNum (int t))),
       random = (\<lambda>t. t),
       now = (\<lambda>t. js ''2024-01-01T00:00:00.000Z'') \<rparr>"

definition empty_world :: world where
  "empty_world = \<lparr> store = [], console = [], tick = 0 \<rparr>"


section \<open>Properties of the API server\<close>

subsection \<open>Auxiliary facts\<close>

lemma row_id_stored [simp]: "row_id (stored i data) = i"
  by (simp add: stored_def article_data.defs article.defs)

lemma is_fire_stored [simp]: "is_fire (stored i data) = is_fire data"
  by (simp add: stored_def article_data.defs article.defs)

lemma sample_category [simp]: "category (sample_article i cat n) = cat"
  by (simp add: sample_article_def stored_def article_data.defs article.defs)

lemma sample_row_id [simp]: "row_id (sample_article i cat n) = JStr i"
  by (simp add: sample_article_def)

lemma sample_comment_count [simp]: "comment_count (sample_article i cat n) = n"
  by (simp add: sample_article_def stored_def article_data.defs article.defs)

lemma set_order_desc [simp]: "set (order_desc key rows) = set rows"
  by (simp add: order_desc_def)

lemma length_order_desc [simp]: "length (order_desc key rows) = length rows"
  by (simp add: order_desc_def)

lemma set_range_rows: "set (range_rows i j rows) \<subseteq> set rows"
  unfolding range_rows_def
  by (meson order_trans set_take_subset set_drop_subset)

lemma range_rows_default: "length rows \<le> 20 \<Longrightarrow> range_rows 0 19 rows = rows"
  by (simp add: range_rows_def)

lemma range_from_category [simp]: "range_from (q\<lparr>q_category := x\<rparr>) = range_from q"
  by (simp add: range_from_def)

lemma range_to_category [simp]: "range_to (q\<lparr>q_category := x\<rparr>) = range_to q"
  by (simp add: range_to_def)

lemma js_includes_primitive: "is_primitive x \<Longrightarrow> js_includes vs x = (x \<in> set vs)"
  by (cases x) (auto simp add: js_includes_def list_ex_iff)

lemma filter_set_comment_count:
  "filter (\<lambda>x. row_id x = i) (set_comment_count i n rows) =
     map (\<lambda>x. x\<lparr>comment_count := Some n\<rparr>) (filter (\<lambda>x. row_id x = i) rows)"
  by (induction rows) (simp_all add: set_comment_count_def)

text \<open>A comment the store refuses is answered with status 500 and changes nothing.\<close>

lemma post_comments_refused:
  "truthy (b_article_id b) \<Longrightarrow> truthy (b_text b) \<Longrightarrow> fault 0 = Some e \<Longrightarrow>
     post_comments fault b d = (\<lparr>status = 500, body = Failure (message e)\<rparr>, d)"
  by (simp add: post_comments_def)

subsection \<open>Posting a comment\<close>

text \<open>
  Claim C1. For a request with a truthy \<open>article_id\<close> and a truthy \<open>text\<close>, when the store
  answers the three calls of the handler (insert, read, update) without an error and holds
  one article \<open>a\<close> with that id, the article's \<open>comment_count\<close> after the request is the
  value read before it plus 1, a missing (null) value counting as 0; no other article
  changes.
\<close>

theorem post_comments_increments:
  "truthy (b_article_id b) \<Longrightarrow> truthy (b_text b) \<Longrightarrow>
   fault 0 = None \<Longrightarrow> fault 1 = None \<Longrightarrow> fault 2 = None \<Longrightarrow>
   filter (\<lambda>x. row_id x = b_article_id b) (articles d) = [a] \<Longrightarrow>
     articles (snd (post_comments fault b d)) =
       map (\<lambda>x. if row_id x = b_article_id b
                 then x\<lparr>comment_count :=
                          Some ((case comment_count a of None \<Rightarrow> 0 | Some c \<Rightarrow> c) + 1)\<rparr>
                 else x)
         (articles d)
     \<and> filter (\<lambda>x. row_id x = b_article_id b) (articles (snd (post_comments fault b d))) =
         [a\<lparr>comment_count := Some ((case comment_count a of None \<Rightarrow> 0 | Some c \<Rightarrow> c) + 1)\<rparr>]"
  by (simp add: post_comments_def Let_def count_or_zero_def filter_set_comment_count)
     (simp add: set_comment_count_def)

theorem post_comments_increments_witness:
  "truthy (b_article_id hi_body) \<and> truthy (b_text hi_body)
   \<and> no_fault 0 = None \<and> no_fault 1 = None \<and> no_fault 2 = None
   \<and> filter (\<lambda>x. row_id x = b_article_id hi_body) (articles sample_db) =
        [sample_article (js ''a1'') (js ''anime'') (Some 5)]
   \<and> filter (\<lambda>x. row_id x = b_article_id hi_body)
        (articles (snd (post_comments no_fault hi_body sample_db))) =
        [(sample_article (js ''a1'') (js ''anime'') (Some 5))\<lparr>comment_count := Some 6\<rparr>]"
proof -
  have h1: "truthy (b_article_id hi_body)" and h2: "truthy (b_text hi_body)"
    by (simp_all add: hi_body_def js_def)
  have h3: "no_fault 0 = None" "no_fault 1 = None" "no_fault 2 = None"
    by (simp_all add: no_fault_def)
  have h4: "filter (\<lambda>x. row_id x = b_article_id hi_body) (articles sample_db) =
        [sample_article (js ''a1'') (js ''anime'') (Some 5)]"
    by (simp add: sample_db_def hi_body_def js_def)
  note incr = post_comments_increments [OF h1 h2 h3 h4, THEN conjunct2]
  then have
    "filter (\<lambda>x. row_id x = b_article_id hi_body)
        (articles (snd (post_comments no_fault hi_body sample_db))) =
        [(sample_article (js ''a1'') (js ''anime'') (Some 5))\<lparr>comment_count := Some 6\<rparr>]"
    by simp
  with h1 h2 h3 h4 show ?thesis
    by blast
qed

text \<open>
  Claim C2. A request whose body has no \<open>text\<close> field is answered with status 400, and
  the store is left exactly as it was: no comment is inserted, no article is updated.
\<close>

theorem post_comments_missing_text:
  "b_text b = JUndefined \<Longrightarrow>
     post_comments fault b d =
       (\<lparr>status = 400, body = Failure (js ''article_id and text are required'')\<rparr>, d)"
  by (simp add: post_comments_def)

theorem post_comments_missing_text_witness:
  "b_text (hi_body\<lparr>b_text := JUndefined\<rparr>) = JUndefined
   \<and> post_comments no_fault (hi_body\<lparr>b_text := JUndefined\<rparr>) sample_db =
       (\<lparr>status = 400, body = Failure (js ''article_id and text are required'')\<rparr>, sample_db)"
  using post_comments_missing_text [of "hi_body\<lparr>b_text := JUndefined\<rparr>" no_fault sample_db]
  by simp

text \<open>
  Claim C8. For a request that gives a truthy \<open>article_id\<close> and a truthy \<open>text\<close> and
  leaves out \<open>user_name\<close> and \<open>user_avatar\<close>, the comment the store keeps has the
  \<open>user_name\<close> made of the code units 533F 540D (the anonymous label) and the
  \<open>user_avatar\<close> made of D83D DE0A (the smiling face); it is the only row added, and
  nothing is added when the store refuses the insert.
\<close>

theorem post_comments_defaults:
  "truthy (b_article_id b) \<Longrightarrow> truthy (b_text b) \<Longrightarrow>
   b_user_name b = JUndefined \<Longrightarrow> b_user_avatar b = JUndefined \<Longrightarrow>
     comments (snd (post_comments fault b d)) =
       (if fault 0 = None
        then comments d @
          [\<lparr> article_id = b_article_id b, user_name = JStr [0x533F, 0x540D],
             user_avatar = JStr [0xD83D, 0xDE0A], comment_text = b_text b \<rparr>]
        else comments d)"
  by (auto simp add: post_comments_def new_comment_def or_else_def Let_def split: option.splits)

theorem post_comments_defaults_witness:
  "truthy (b_article_id hi_body) \<and> truthy (b_text hi_body)
   \<and> b_user_name hi_body = JUndefined \<and> b_user_avatar hi_body = JUndefined
   \<and> comments (snd (post_comments no_fault hi_body sample_db)) =
          [\<lparr> article_id = JStr (js ''a1''), user_name = JStr [0x533F, 0x540D],
             user_avatar = JStr [0xD83D, 0xDE0A], comment_text = JStr (js ''hi'') \<rparr>]"
  using post_comments_defaults [of hi_body no_fault sample_db]
  by (simp add: hi_body_def no_fault_def sample_db_def js_def)


subsection \<open>Listing and recommending articles\<close>

text \<open>
  Claim C3. When \<open>viewed_articles\<close> is a list, no article of the response data has an id
  that \<open>includes\<close> finds in the list; for an id that is a primitive value (a string, a
  number) this says that the id is not a member of the list.
\<close>

theorem recommend_articles_excludes_viewed:
  "r_viewed_articles b = Some vs \<Longrightarrow> a \<in> set (data_of (recommend_articles fault b d)) \<Longrightarrow>
     \<not> js_includes vs (row_id a) \<and> (is_primitive (row_id a) \<longrightarrow> row_id a \<notin> set vs)"
  by (cases fault)
     (auto simp add: recommend_articles_def data_of_def Let_def js_includes_primitive)

theorem recommend_articles_excludes_viewed_witness:
  "r_viewed_articles viewed_body = Some [JStr (js ''a1'')]
   \<and> sample_article (js ''a2'') (js ''game'') None
       \<in> set (data_of (recommend_articles None viewed_body sample_db))
   \<and> sample_article (js ''a1'') (js ''anime'') (Some 5)
       \<notin> set (data_of (recommend_articles None viewed_body sample_db))
   \<and> is_primitive (row_id (sample_article (js ''a2'') (js ''game'') None))
   \<and> row_id (sample_article (js ''a2'') (js ''game'') None) \<notin> set [JStr (js ''a1'')]"
proof -
  have h1: "r_viewed_articles viewed_body = Some [JStr (js ''a1'')]"
    by (simp add: viewed_body_def)
  have h2: "sample_article (js ''a2'') (js ''game'') None
       \<in> set (data_of (recommend_articles None viewed_body sample_db))"
    by (simp add: recommend_articles_def data_of_def viewed_body_def sample_db_def
        js_includes_def) (simp add: js_def)
  have h3: "sample_article (js ''a1'') (js ''anime'') (Some 5)
       \<notin> set (data_of (recommend_articles None viewed_body sample_db))"
    by (simp add: recommend_articles_def data_of_def viewed_body_def sample_db_def
        js_includes_def)
  have h4: "is_primitive (row_id (sample_article (js ''a2'') (js ''game'') None))"
    by simp
  from recommend_articles_excludes_viewed [OF h1 h2] h1 h2 h3 h4 show ?thesis
    by blast
qed

text \<open>
  Claim C5, as the code has it. The handler filters only when the \<open>category\<close> parameter
  is not empty and is not the word \<open>all\<close>: for such a parameter every article of the
  response data has that category. When the parameter is empty or is the word \<open>all\<close>,
  the handler applies no category filter: the response is the one of the same request
  without the parameter, and its data is the range cut from all articles in their order.
\<close>

theorem get_articles_category:
  "q_category q = Some c \<Longrightarrow>
     (c \<noteq> [] \<and> c \<noteq> js ''all'' \<longrightarrow>
        (\<forall>a \<in> set (data_of (get_articles fault q d)). category a = c))
   \<and> (c = [] \<or> c = js ''all'' \<longrightarrow>
        get_articles fault q d = get_articles fault (q\<lparr>q_category := None\<rparr>) d
        \<and> data_of (get_articles None q d) =
            range_rows (range_from q) (range_to q) (order_desc published_at (articles d)))"
proof -
  assume c: "q_category q = Some c"
  have filtered: "category a = c"
    if "c \<noteq> []" "c \<noteq> js ''all''" and a: "a \<in> set (data_of (get_articles fault q d))" for a
  proof -
    from c that have "a \<in> set (range_rows (range_from q) (range_to q)
        (order_desc published_at (filter (\<lambda>a. category a = c) (articles d))))"
      by (cases fault) (simp_all add: get_articles_def data_of_def Let_def)
    then have "a \<in> set (order_desc published_at (filter (\<lambda>a. category a = c) (articles d)))"
      by (rule subsetD [OF set_range_rows])
    then show ?thesis
      by simp
  qed
  have unfiltered:
    "get_articles fault q d = get_articles fault (q\<lparr>q_category := None\<rparr>) d
     \<and> data_of (get_articles None q d) =
         range_rows (range_from q) (range_to q) (order_desc published_at (articles d))"
    if "c = [] \<or> c = js ''all''"
    using c that by (auto simp add: get_articles_def data_of_def Let_def)
  from filtered unfiltered show ?thesis
    by blast
qed

theorem get_articles_category_witness:
  "q_category anime_query = Some (js ''anime'') \<and> js ''anime'' \<noteq> [] \<and> js ''anime'' \<noteq> js ''all''
   \<and> sample_article (js ''a1'') (js ''anime'') (Some 5)
       \<in> set (data_of (get_articles None anime_query sample_db))
   \<and> category (sample_article (js ''a1'') (js ''anime'') (Some 5)) = js ''anime''
   \<and> q_category all_query = Some (js ''all'')
   \<and> data_of (get_articles None all_query sample_db) =
       range_rows (range_from all_query) (range_to all_query)
         (order_desc published_at (articles sample_db))
   \<and> q_category empty_query = Some []
   \<and> get_articles None empty_query sample_db =
       get_articles None (empty_query\<lparr>q_category := None\<rparr>) sample_db"
proof -
  have h1: "q_category anime_query = Some (js ''anime'')"
    by (simp add: anime_query_def)
  have h2: "js ''anime'' \<noteq> []" and h3: "js ''anime'' \<noteq> js ''all''"
    by (simp_all add: js_def)
  have h4: "sample_article (js ''a1'') (js ''anime'') (Some 5)
       \<in> set (data_of (get_articles None anime_query sample_db))"
    by (simp add: get_articles_def data_of_def anime_query_def range_from_def range_to_def
      range_rows_default sample_db_def h2 h3)
  have h5: "q_category all_query = Some (js ''all'')"
    by (simp add: all_query_def)
  have h6: "q_category empty_query = Some []"
    by (simp add: empty_query_def)
  from get_articles_category [OF h1, of None sample_db] h2 h3 h4
  have "category (sample_article (js ''a1'') (js ''anime'') (Some 5)) = js ''anime''"
    by blast
  moreover from get_articles_category [OF h5, of None sample_db]
  have "data_of (get_articles None all_query sample_db) =
       range_rows (range_from all_query) (range_to all_query)
         (order_desc published_at (articles sample_db))"
    by blast
  moreover from get_articles_category [OF h6, of None sample_db]
  have "get_articles None empty_query sample_db =
       get_articles None (empty_query\<lparr>q_category := None\<rparr>) sample_db"
    by blast
  ultimately show ?thesis
    using h1 h2 h3 h4 h5 h6 by blast
qed

text \<open>
  With \<open>category=all\<close> the request carries a category parameter, and the response holds
  an article whose category is another one.
\<close>

theorem get_articles_all_counterexample:
  "q_category all_query = Some (js ''all'')
   \<and> sample_article (js ''a1'') (js ''anime'') (Some 5)
       \<in> set (data_of (get_articles None all_query sample_db))
   \<and> category (sample_article (js ''a1'') (js ''anime'') (Some 5)) \<noteq> js ''all''"
  by (simp add: get_articles_def data_of_def all_query_def range_from_def range_to_def
      range_rows_default sample_db_def) (simp add: js_def)


subsection \<open>Upserting user preferences\<close>

lemma filter_map_if_same:
  "filter (\<lambda>p. user_id p = u) (map (\<lambda>p. if user_id p = u then f p else p) rows) =
     map f (filter (\<lambda>p. user_id p = u) rows)" if "\<And>p. user_id (f p) = user_id p"
  using that by (induction rows) simp_all

lemma user_id_updated [simp]: "user_id (updated_preference b t ex p) = user_id p"
  by (simp add: updated_preference_def)

lemma upsert_existing:
  assumes "truthy (p_user_id b)" "fault 0 = None" "fault 1 = None"
    and "filter (\<lambda>p. user_id p = p_user_id b) (user_preferences d) = [ex]"
  shows "filter (\<lambda>p. user_id p = p_user_id b)
           (user_preferences (snd (post_user_preferences fault t b d))) =
         [updated_preference b t ex ex]"
  using assms
  by (simp add: post_user_preferences_def Let_def filter_map_if_same)

lemma upsert_missing:
  assumes "truthy (p_user_id b)" "fault 1 = None"
    and "filter (\<lambda>p. user_id p = p_user_id b) (user_preferences d) = []"
  shows "filter (\<lambda>p. user_id p = p_user_id b)
           (user_preferences (snd (post_user_preferences fault t b d))) =
         [new_preference b]"
  using assms
  by (cases "fault 0") (simp_all add: post_user_preferences_def Let_def new_preference_def)

lemma at_most_one_cases: "length xs \<le> 1 \<Longrightarrow> xs = [] \<or> (\<exists>x. xs = [x])"
  by (cases xs) auto

text \<open>
  Claim C4. Take a truthy \<open>user_id\<close>, a store that holds at most one record for it, and two
  requests for it that the store answers without an error. After the second request
  the store holds exactly one record \<open>p\<close> for the \<open>user_id\<close>; its \<open>last_visit\<close> is the time
  of the second request; each of its two fields is the value of the second request when
  that value is truthy and otherwise the value the record had before the second request
  (\<open>prior\<close>), so a field the second request leaves out keeps its prior value.
\<close>

theorem post_user_preferences_twice:
  assumes uid: "truthy u" "p_user_id b1 = u" "p_user_id b2 = u"
    and ok: "fault1 0 = None" "fault1 1 = None" "fault2 0 = None" "fault2 1 = None"
    and one: "length (filter (\<lambda>p. user_id p = u) (user_preferences d)) \<le> 1"
  shows "\<exists>prior p.
           filter (\<lambda>p. user_id p = u)
             (user_preferences (snd (post_user_preferences fault1 t1 b1 d))) = [prior]
         \<and> filter (\<lambda>p. user_id p = u)
             (user_preferences
               (snd (post_user_preferences fault2 t2 b2
                      (snd (post_user_preferences fault1 t1 b1 d))))) = [p]
         \<and> last_visit p = Some t2
         \<and> favorite_categories p =
             or_else (p_favorite_categories b2) (favorite_categories prior)
         \<and> viewed_articles p = or_else (p_viewed_articles b2) (viewed_articles prior)
         \<and> (p_favorite_categories b2 = JUndefined \<longrightarrow>
              favorite_categories p = favorite_categories prior)
         \<and> (p_viewed_articles b2 = JUndefined \<longrightarrow> viewed_articles p = viewed_articles prior)"
proof -
  let ?d1 = "snd (post_user_preferences fault1 t1 b1 d)"
  have "\<exists>prior. filter (\<lambda>p. user_id p = u) (user_preferences ?d1) = [prior]"
  proof -
    from at_most_one_cases [OF one] show ?thesis
    proof
      assume "filter (\<lambda>p. user_id p = u) (user_preferences d) = []"
      with upsert_missing [of b1 fault1 d t1] uid ok show ?thesis by simp
    next
      assume "\<exists>x. filter (\<lambda>p. user_id p = u) (user_preferences d) = [x]"
      then obtain x where "filter (\<lambda>p. user_id p = u) (user_preferences d) = [x]" ..
      with upsert_existing [of b1 fault1 d x t1] uid ok show ?thesis by simp
    qed
  qed
  then obtain prior where
    prior: "filter (\<lambda>p. user_id p = u) (user_preferences ?d1) = [prior]" ..
  with upsert_existing [of b2 fault2 ?d1 prior t2] uid ok
  have "filter (\<lambda>p. user_id p = u)
          (user_preferences (snd (post_user_preferences fault2 t2 b2 ?d1))) =
        [updated_preference b2 t2 prior prior]"
    by simp
  with prior show ?thesis
    by (simp add: updated_preference_def or_else_def)
qed

theorem post_user_preferences_twice_witness:
  "truthy (JStr (js ''u1''))
   \<and> length (filter (\<lambda>p. user_id p = JStr (js ''u1'')) (user_preferences sample_db)) \<le> 1
   \<and> filter (\<lambda>p. user_id p = JStr (js ''u1''))
        (user_preferences
          (snd (post_user_preferences no_fault (js ''2024-01-02'') second_preferences
                 (snd (post_user_preferences no_fault (js ''2024-01-01'') first_preferences
                        sample_db))))) =
        [\<lparr> user_id = JStr (js ''u1''),
            favorite_categories = JArr [JStr (js ''anime'')],
            viewed_articles = JArr [JStr (js ''a1'')],
            last_visit = Some (js ''2024-01-02'') \<rparr>]"
proof -
  have h1: "truthy (JStr (js ''u1''))"
    by (simp add: js_def)
  have h2: "p_user_id first_preferences = JStr (js ''u1'')"
    "p_user_id second_preferences = JStr (js ''u1'')"
    by (simp_all add: first_preferences_def second_preferences_def)
  have h3: "no_fault 0 = None" "no_fault 1 = None"
    by (simp_all add: no_fault_def)
  have h4: "length (filter (\<lambda>p. user_id p = JStr (js ''u1'')) (user_preferences sample_db)) \<le> 1"
    by (simp add: sample_db_def)
  have first: "filter (\<lambda>p. user_id p = JStr (js ''u1''))
        (user_preferences (snd (post_user_preferences no_fault (js ''2024-01-01'')
           first_preferences sample_db))) =
        [\<lparr> user_id = JStr (js ''u1''),
            favorite_categories = JArr [JStr (js ''anime'')],
            viewed_articles = JArr [],
            last_visit = None \<rparr>]"
    using h1
    by (simp add: post_user_preferences_def no_fault_def first_preferences_def sample_db_def
        new_preference_def or_else_def)
  from post_user_preferences_twice [OF h1 h2 h3 h3 h4,
      of "js ''2024-01-01''" "js ''2024-01-02''"]
  obtain prior p where
    "filter (\<lambda>p. user_id p = JStr (js ''u1''))
        (user_preferences (snd (post_user_preferences no_fault (js ''2024-01-01'')
           first_preferences sample_db))) = [prior]"
    and p: "filter (\<lambda>p. user_id p = JStr (js ''u1''))
        (user_preferences
          (snd (post_user_preferences no_fault (js ''2024-01-02'') second_preferences
                 (snd (post_user_preferences no_fault (js ''2024-01-01'') first_preferences
                        sample_db))))) = [p]"
    and "last_visit p = Some (js ''2024-01-02'')"
    and "favorite_categories p =
           or_else (p_favorite_categories second_preferences) (favorite_categories prior)"
    and "viewed_articles p =
           or_else (p_viewed_articles second_preferences) (viewed_articles prior)"
    by blast
  with first have
    "user_id p = JStr (js ''u1'')"
    "favorite_categories p = JArr [JStr (js ''anime'')]"
    "viewed_articles p = JArr [JStr (js ''a1'')]"
    "last_visit p = Some (js ''2024-01-02'')"
    using filter_eq_ConsD [OF p]
    by (auto simp add: second_preferences_def or_else_def)
  then have "p = \<lparr> user_id = JStr (js ''u1''),
            favorite_categories = JArr [JStr (js ''anime'')],
            viewed_articles = JArr [JStr (js ''a1'')],
            last_visit = Some (js ''2024-01-02'') \<rparr>"
    by simp
  with p h1 h4 show ?thesis
    by simp
qed

text \<open>
  Claim C10. For a truthy \<open>user_id\<close> with no record in the store, the request adds at most
  the one record built by the insert branch, and that record has no \<open>last_visit\<close>:
  only the update branch writes one.
\<close>

theorem post_user_preferences_first_time:
  "truthy (p_user_id b) \<Longrightarrow>
   filter (\<lambda>p. user_id p = p_user_id b) (user_preferences d) = [] \<Longrightarrow>
     user_preferences (snd (post_user_preferences fault t b d)) =
       (if fault 1 = None then user_preferences d @ [new_preference b] else user_preferences d)
     \<and> last_visit (new_preference b) = None
     \<and> user_id (new_preference b) = p_user_id b"
  by (cases "fault 0"; cases "fault 1")
     (simp_all add: post_user_preferences_def Let_def new_preference_def)

theorem post_user_preferences_first_time_witness:
  "truthy (p_user_id first_preferences)
   \<and> filter (\<lambda>p. user_id p = p_user_id first_preferences) (user_preferences sample_db) = []
   \<and> user_preferences
       (snd (post_user_preferences no_fault (js ''2024-01-01'') first_preferences sample_db)) =
       [\<lparr> user_id = JStr (js ''u1''),
           favorite_categories = JArr [JStr (js ''anime'')],
           viewed_articles = JArr [],
           last_visit = None \<rparr>]"
proof -
  have h1: "truthy (p_user_id first_preferences)"
    by (simp add: first_preferences_def js_def)
  have h2: "filter (\<lambda>p. user_id p = p_user_id first_preferences)
      (user_preferences sample_db) = []"
    by (simp add: sample_db_def)
  from post_user_preferences_first_time [OF h1 h2, of no_fault "js ''2024-01-01''"] h1 h2
  show ?thesis
    by (simp add: no_fault_def sample_db_def new_preference_def first_preferences_def
        or_else_def)
qed


section \<open>Properties of the ingestion job\<close>

subsection \<open>Auxiliary facts\<close>

lemma unreserved_not_surrogate: "unreserved c \<Longrightarrow> \<not> is_lead c \<and> \<not> is_trail c"
  by (auto simp add: unreserved_def is_lead_def is_trail_def word_le_nat_alt)

lemma lead_not_trail: "is_lead c \<Longrightarrow> \<not> is_trail c"
  by (auto simp add: is_lead_def is_trail_def word_le_nat_alt)

lemma then_append_Inr: "(\<exists>r. then_append s x = Inr r) = (\<exists>t. x = Inr t)"
  by (cases x) (simp_all add: then_append_def)

lemma encode_plain:
  "\<not> is_lead c \<Longrightarrow> \<not> is_trail c \<Longrightarrow>
     (\<exists>q. encodeURIComponent (c # cs) = Inr q) = (\<exists>q. encodeURIComponent cs = Inr q)"
  by (simp add: then_append_Inr)

lemma encode_trail:
  "is_trail c \<Longrightarrow> encodeURIComponent (c # cs) = Inl (URIError (js ''URI malformed''))"
  using unreserved_not_surrogate [of c] by auto

lemma encode_lead_end:
  "is_lead c \<Longrightarrow> encodeURIComponent [c] = Inl (URIError (js ''URI malformed''))"
  using unreserved_not_surrogate [of c] by auto

lemma encode_lead:
  "is_lead c \<Longrightarrow>
     (\<exists>q. encodeURIComponent (c # d # ds) = Inr q) =
       (is_trail d \<and> (\<exists>q. encodeURIComponent ds = Inr q))"
  using unreserved_not_surrogate [of c] lead_not_trail [of c]
  by (auto simp add: then_append_Inr)

lemma encodeURIComponent_wellformed:
  "(\<exists>q. encodeURIComponent k = Inr q) = isWellFormed k"
proof (induction k rule: isWellFormed.induct)
  case 1
  show ?case by simp
next
  case (2 c)
  show ?case
  proof (cases "is_lead c \<or> is_trail c")
    case True
    then show ?thesis
      using encode_lead_end [of c] encode_trail [of c "[]"] by auto
  next
    case False
    then show ?thesis
      using encode_plain [of c "[]"] by simp
  qed
next
  case (3 c d ds)
  show ?case
  proof (cases "is_lead c")
    case True
    with 3 show ?thesis
      by (simp only: encode_lead isWellFormed.simps if_True)
  next
    case lead: False
    show ?thesis
    proof (cases "is_trail c")
      case True
      with lead show ?thesis
        by (simp add: encode_trail del: encodeURIComponent.simps)
    next
      case False
      with lead 3 show ?thesis
        by (simp add: encode_plain del: encodeURIComponent.simps)
    qed
  qed
qed

lemma store_log [simp]: "store (log entry w) = store w"
  by (simp add: log_def)

lemma console_log [simp]: "console (log entry w) = console w @ [entry]"
  by (simp add: log_def)

lemma tick_log [simp]: "tick (log entry w) = tick w"
  by (simp add: log_def)

lemma search_try_failed: "failed outcome \<Longrightarrow> \<exists>x. search_try outcome = Inl x"
  by (cases outcome) (auto simp add: search_try_def)

lemma comments_try_failed:
  "failed outcome \<Longrightarrow>
     (\<exists>x. comments_try v outcome = Inl x) \<or> (\<exists>entry. comments_try v outcome = Inr ([entry], []))"
  by (cases outcome) (auto simp add: comments_try_def)

lemma getVideoComments_returns: "\<exists>cs. fst (getVideoComments e v m w) = Inr cs"
  by (simp add: getVideoComments_def Let_def split: sum.split prod.split)

lemma job_keywords_wellformed: "k \<in> set (map fst keyword_list) \<Longrightarrow> isWellFormed k"
  by (auto simp add: keyword_list_def is_lead_def is_trail_def)

subsection \<open>The article synthesizer\<close>

text \<open>
  Claim C6. For every video item and every comment list, the record \<open>articleData\<close> has
  \<open>is_fire\<close> true exactly when the list has more than 50 comments, and so has the row the
  function returns when the store accepts the insert.
\<close>

theorem createArticleFromVideo_is_fire:
  "is_fire (articleData e t v cs cat) = (50 < length cs)
   \<and> (\<forall>a. fst (createArticleFromVideo e v cs cat w) = Some a \<longrightarrow>
          is_fire a = (50 < length cs))"
  by (auto simp add: articleData_def createArticleFromVideo_def Let_def split: sum.splits)

theorem createArticleFromVideo_is_fire_witness:
  "fst (createArticleFromVideo online_env sample_video (replicate 51 sample_thread)
          (js ''anime'') empty_world) =
     Some (stored (JNum 3)
        (articleData online_env 0 sample_video (replicate 51 sample_thread) (js ''anime'')))
   \<and> is_fire (stored (JNum 3)
        (articleData online_env 0 sample_video (replicate 51 sample_thread) (js ''anime'')))
   \<and> \<not> is_fire (articleData online_env 0 sample_video (replicate 50 sample_thread) (js ''anime''))"
proof -
  have h: "fst (createArticleFromVideo online_env sample_video (replicate 51 sample_thread)
          (js ''anime'') empty_world) =
     Some (stored (JNum 3)
        (articleData online_env 0 sample_video (replicate 51 sample_thread) (js ''anime'')))"
    by (simp add: createArticleFromVideo_def online_env_def empty_world_def Let_def)
  from createArticleFromVideo_is_fire
    [of online_env 0 sample_video "replicate 51 sample_thread" "js ''anime''" empty_world]
    createArticleFromVideo_is_fire
    [of online_env 0 sample_video "replicate 50 sample_thread" "js ''anime''" empty_world]
    h
  show ?thesis
    by simp
qed

subsection \<open>The platform client\<close>

text \<open>
  Claim C7. For every video id, \<open>getVideoComments\<close> never throws, and when its call comes
  to a transport error or to an error reported by the platform it returns \<open>[]\<close> and
  writes one entry to the console. For every keyword, when the call of
  \<open>searchTrendingVideos\<close> (the request for the encoded keyword \<open>q\<close>) comes to such an
  error, the function returns \<open>[]\<close> and writes the error to the console instead of
  passing it on. \<open>searchTrendingVideos\<close> returns a list, without throwing, for every well
  formed keyword, and so for every keyword the job passes to it.
\<close>

theorem client_fails_soft:
  "(\<exists>cs. fst (getVideoComments e v m w) = Inr cs)
   \<and> (failed (fetch_comment_threads e (tick w) (comments_url e v m)) \<longrightarrow>
         fst (getVideoComments e v m w) = Inr []
         \<and> (\<exists>entry. console (snd (getVideoComments e v m w)) = console w @ [entry]))
   \<and> (\<forall>q. encodeURIComponent keyword = Inr q
           \<and> failed (fetch_search e (tick w) (search_url e q n)) \<longrightarrow>
         fst (searchTrendingVideos e keyword n w) = Inr []
         \<and> (\<exists>x. console (snd (searchTrendingVideos e keyword n w)) =
                   console w @ [ErrorSearchingVideos x]))
   \<and> (isWellFormed keyword \<longrightarrow> (\<exists>vs. fst (searchTrendingVideos e keyword n w) = Inr vs))
   \<and> (\<forall>k \<in> set (map fst keyword_list). \<exists>vs. fst (searchTrendingVideos e k n w) = Inr vs)"
proof -
  have search: "\<exists>vs. fst (searchTrendingVideos e k n w) = Inr vs"
    if "isWellFormed k" for k
  proof -
    from that obtain q where "encodeURIComponent k = Inr q"
      using encodeURIComponent_wellformed [of k] by blast
    then show ?thesis
      by (simp add: searchTrendingVideos_def Let_def split: sum.split)
  qed
  have search_failed: "fst (searchTrendingVideos e keyword n w) = Inr []
         \<and> (\<exists>x. console (snd (searchTrendingVideos e keyword n w)) =
                   console w @ [ErrorSearchingVideos x])"
    if "encodeURIComponent keyword = Inr q"
      and "failed (fetch_search e (tick w) (search_url e q n))" for q
    using search_try_failed [OF that(2)] that(1)
    by (auto simp add: searchTrendingVideos_def Let_def)
  have comments_failed: "fst (getVideoComments e v m w) = Inr []
         \<and> (\<exists>entry. console (snd (getVideoComments e v m w)) = console w @ [entry])"
    if "failed (fetch_comment_threads e (tick w) (comments_url e v m))"
    using comments_try_failed [OF that, of v]
    by (auto simp add: getVideoComments_def Let_def)
  from search getVideoComments_returns [of e v m w] search_failed comments_failed
    job_keywords_wellformed
  show ?thesis
    by blast
qed

theorem client_fails_soft_witness:
  "isWellFormed [0x30A2, 0x30CB, 0x30E1, 0x20, 0x8A71, 0x984C]
   \<and> [0x30A2, 0x30CB, 0x30E1, 0x20, 0x8A71, 0x984C] \<in> set (map fst keyword_list)
   \<and> encodeURIComponent [0x30A2, 0x30CB, 0x30E1, 0x20, 0x8A71, 0x984C] =
       Inr (js ''%E3%82%A2%E3%83%8B%E3%83%A1%20%E8%A9%B1%E9%A1%8C'')
   \<and> failed (fetch_search offline_env (tick empty_world)
        (search_url offline_env (js ''%E3%82%A2%E3%83%8B%E3%83%A1%20%E8%A9%B1%E9%A1%8C'') 3))
   \<and> failed (fetch_comment_threads offline_env (tick empty_world)
        (comments_url offline_env (js ''v1'') 20))
   \<and> fst (searchTrendingVideos offline_env [0x30A2, 0x30CB, 0x30E1, 0x20, 0x8A71, 0x984C] 3
          empty_world) = Inr []
   \<and> fst (getVideoComments offline_env (js ''v1'') 20 empty_world) = Inr []"
proof -
  have h1: "isWellFormed [0x30A2, 0x30CB, 0x30E1, 0x20, 0x8A71, 0x984C]"
    by (simp add: is_lead_def is_trail_def)
  have h2: "encodeURIComponent [0x30A2, 0x30CB, 0x30E1, 0x20, 0x8A71, 0x984C] =
       Inr (js ''%E3%82%A2%E3%83%8B%E3%83%A1%20%E8%A9%B1%E9%A1%8C'')"
    by (simp add: unreserved_def is_lead_def is_trail_def then_append_def escape_def utf8_def
        percent_def hex_digit_def js_def)
  have h3: "failed (fetch_search offline_env (tick empty_world)
        (search_url offline_env (js ''%E3%82%A2%E3%83%8B%E3%83%A1%20%E8%A9%B1%E9%A1%8C'') 3))"
    by (simp add: offline_env_def)
  have h4: "failed (fetch_comment_threads offline_env (tick empty_world)
        (comments_url offline_env (js ''v1'') 20))"
    by (simp add: offline_env_def)
  have h5: "[0x30A2, 0x30CB, 0x30E1, 0x20, 0x8A71, 0x984C] \<in> set (map fst keyword_list)"
    by (simp add: keyword_list_def)
  from client_fails_soft [where e = offline_env and w = empty_world and n = 3 and m = 20
      and v = "js ''v1''" and keyword = "[0x30A2, 0x30CB, 0x30E1, 0x20, 0x8A71, 0x984C]"]
    h1 h2 h3 h4 h5
  show ?thesis
    by blast
qed

subsection \<open>The job\<close>

lemma getVideoComments_store [simp]: "store (snd (getVideoComments e v m w)) = store w"
  by (simp add: getVideoComments_def Let_def split: sum.split prod.split)

lemma searchTrendingVideos_store [simp]: "store (snd (searchTrendingVideos e k n w)) = store w"
  by (simp add: searchTrendingVideos_def Let_def split: sum.split)

lemma getVideoComments_items:
  "fst (getVideoComments e v m w) =
     Inr (if failed (fetch_comment_threads e (tick w) (comments_url e v m)) then []
          else items_of (fetch_comment_threads e (tick w) (comments_url e v m)))"
  by (cases "fetch_comment_threads e (tick w) (comments_url e v m)")
     (auto simp add: getVideoComments_def comments_try_def items_of_def Let_def
        split: option.splits)

lemma getVideoComments_bounded:
  assumes "\<forall>t v. length (items_of (fetch_comment_threads e t (comments_url e v 20))) \<le> 20"
    and "getVideoComments e v 20 w = (Inr cs, w')"
  shows "length cs \<le> 20"
proof -
  from assms(2) have "fst (getVideoComments e v 20 w) = Inr cs"
    by simp
  with getVideoComments_items [of e v 20 w] assms(1) show ?thesis
    by (auto split: if_splits)
qed

lemma createArticleFromVideo_store:
  "length cs \<le> 50 \<Longrightarrow>
     \<exists>new. store (snd (createArticleFromVideo e v cs cat w)) = store w @ new
       \<and> list_all (\<lambda>a. \<not> is_fire a) new"
  by (cases "store_insert e (tick w + 3)")
     (simp_all add: createArticleFromVideo_def articleData_def Let_def)

lemma process_videos_store:
  assumes "\<forall>t v. length (items_of (fetch_comment_threads e t (comments_url e v 20))) \<le> 20"
  shows "\<exists>new. store (snd (process_videos e cat vs n w)) = store w @ new
       \<and> list_all (\<lambda>a. \<not> is_fire a) new"
proof (induction vs arbitrary: n w)
  case Nil
  show ?case by simp
next
  case (Cons v vs)
  obtain r w1 where g: "getVideoComments e (videoId v) 20 (log (Processing (snippet_title v)) w) = (r, w1)"
    by (cases "getVideoComments e (videoId v) 20 (log (Processing (snippet_title v)) w)")
  have w1: "store w1 = store w"
    using getVideoComments_store [of e "videoId v" 20 "log (Processing (snippet_title v)) w"] g
    by simp
  show ?case
  proof (cases r)
    case (Inl x)
    with g w1 show ?thesis by simp
  next
    case (Inr cs)
    with g assms have "length cs \<le> 20"
      using getVideoComments_bounded by blast
    then have le: "length cs \<le> 50" by simp
    obtain article w2 where
      c: "createArticleFromVideo e v cs cat (log (Comments (length cs)) w1) = (article, w2)"
      by (cases "createArticleFromVideo e v cs cat (log (Comments (length cs)) w1)")
    from createArticleFromVideo_store [OF le, of e v cat "log (Comments (length cs)) w1"] c w1
    obtain new1 where new1: "store w2 = store w @ new1" "list_all (\<lambda>a. \<not> is_fire a) new1"
      by auto
    from Cons.IH [of "if article \<noteq> None then n + 1 else n" w2]
    obtain new2 where new2:
      "store (snd (process_videos e cat vs (if article \<noteq> None then n + 1 else n) w2)) =
         store w2 @ new2" "list_all (\<lambda>a. \<not> is_fire a) new2"
      by blast
    from g Inr c new1 new2 show ?thesis
      by (intro exI [of _ "new1 @ new2"]) simp
  qed
qed

lemma process_keywords_store:
  assumes "\<forall>t v. length (items_of (fetch_comment_threads e t (comments_url e v 20))) \<le> 20"
  shows "\<exists>new. store (snd (process_keywords e ks n w)) = store w @ new
       \<and> list_all (\<lambda>a. \<not> is_fire a) new"
proof (induction ks arbitrary: n w)
  case Nil
  show ?case by simp
next
  case (Cons k ks)
  obtain keyword cat where k: "k = (keyword, cat)"
    by (cases k)
  obtain r w1 where s: "searchTrendingVideos e keyword 3 (log (Searching keyword) w) = (r, w1)"
    by (cases "searchTrendingVideos e keyword 3 (log (Searching keyword) w)")
  have w1: "store w1 = store w"
    using searchTrendingVideos_store [of e keyword 3 "log (Searching keyword) w"] s by simp
  show ?case
  proof (cases r)
    case (Inl x)
    with k s w1 show ?thesis by simp
  next
    case (Inr vs)
    obtain r2 w2 where p: "process_videos e cat vs n (log (Found (length vs)) w1) = (r2, w2)"
      by (cases "process_videos e cat vs n (log (Found (length vs)) w1)")
    from process_videos_store [OF assms, of cat vs n "log (Found (length vs)) w1"] p w1
    obtain new1 where new1: "store w2 = store w @ new1" "list_all (\<lambda>a. \<not> is_fire a) new1"
      by auto
    show ?thesis
    proof (cases r2)
      case (Inl x)
      with k s Inr p new1 show ?thesis by simp
    next
      case r2: (Inr n')
      from Cons.IH [of n' w2]
      obtain new2 where new2:
        "store (snd (process_keywords e ks n' w2)) = store w2 @ new2"
        "list_all (\<lambda>a. \<not> is_fire a) new2"
        by blast
      from k s Inr p r2 new1 new2 show ?thesis
        by (intro exI [of _ "new1 @ new2"]) simp
    qed
  qed
qed

text \<open>
  Claim C9. The job asks for the comments of a video with \<open>maxResults = 20\<close>. When the
  platform answers such a request with at most 20 items, every article the job adds to
  the store has \<open>is_fire\<close> false, whatever else the surroundings do.
\<close>

theorem main_never_fire:
  "\<forall>t v. length (items_of (fetch_comment_threads e t (comments_url e v 20))) \<le> 20 \<Longrightarrow>
     \<exists>new. store (snd (main e w)) = store w @ new \<and> list_all (\<lambda>a. \<not> is_fire a) new"
proof -
  assume h: "\<forall>t v. length (items_of (fetch_comment_threads e t (comments_url e v 20))) \<le> 20"
  obtain r w1 where p: "process_keywords e keyword_list 0 (log Starting w) = (r, w1)"
    by (cases "process_keywords e keyword_list 0 (log Starting w)")
  from process_keywords_store [OF h, of keyword_list 0 "log Starting w"] p
  have "\<exists>new. store w1 = store w @ new \<and> list_all (\<lambda>a. \<not> is_fire a) new"
    by simp
  with p show ?thesis
    by (cases r) (simp_all add: main_def)
qed

theorem main_never_fire_witness:
  "(\<forall>t v. length (items_of (fetch_comment_threads online_env t (comments_url online_env v 20)))
        \<le> 20)
   \<and> length (store (snd (main online_env empty_world))) = 3
   \<and> list_all (\<lambda>a. \<not> is_fire a) (store (snd (main online_env empty_world)))"
proof -
  have h: "\<forall>t v. length (items_of (fetch_comment_threads online_env t
      (comments_url online_env v 20))) \<le> 20"
    by (simp add: online_env_def items_of_def)
  have len: "length (store (snd (main online_env empty_world))) = 3"
    by (simp add: main_def keyword_list_def searchTrendingVideos_def search_try_def
        getVideoComments_def comments_try_def createArticleFromVideo_def online_env_def
        empty_world_def log_def Let_def unreserved_def is_lead_def is_trail_def
        then_append_def)
  from main_never_fire [OF h, of empty_world] h len show ?thesis
    by (auto simp add: empty_world_def)
qed

end
